theory Spec2Isabelle
  imports Complex_Main "HOL-Library.AList" "HOL-Library.Sublist"
begin

section \<open>JSON values and plain JavaScript objects\<close>

text \<open>
  The settings file and the onboarding file are JSON documents. A parsed value is a
  \<open>json\<close>; a plain object is the list of its own properties in insertion order, and a
  well-formed object has each key once. (JavaScript enumerates keys that are array
  indices before the others; the statements below read objects by key and do not
  depend on the order.) Numbers are passed through by the program and
  only tested for truthiness, so a number carries its value as a rational.
\<close>

datatype json =
    JNull
  | JBool bool
  | JNum rat
  | JStr string
  | JArr "json list"
  | JObj "(string \<times> json) list"

type_synonym obj = "(string \<times> json) list"

text \<open>A property read gives \<open>None\<close> for \<open>undefined\<close>. \<open>truthy\<close> is JavaScript's ToBoolean.\<close>

fun truthy :: "json option \<Rightarrow> bool" where
  "truthy None = False"
| "truthy (Some JNull) = False"
| "truthy (Some (JBool b)) = b"
| "truthy (Some (JNum n)) = (n \<noteq> 0)"
| "truthy (Some (JStr s)) = (s \<noteq> [])"
| "truthy (Some (JArr xs)) = True"
| "truthy (Some (JObj kvs)) = True"

text \<open>
  \<open>e.KEY\<close> for the property names the program reads (\<open>ANTHROPIC_BASE_URL\<close>,
  \<open>ANTHROPIC_AUTH_TOKEN\<close>, \<open>ANTHROPIC_MODEL\<close>): none of them is a property of a
  string, an array, a number or a boolean, so only an object can answer.
\<close>

fun get_prop :: "json \<Rightarrow> string \<Rightarrow> json option" where
  "get_prop (JObj kvs) k = map_of kvs k"
| "get_prop j k = None"

text \<open>
  \<open>{...src}\<close> and a property written in an object literal define own data properties:
  the key is overwritten in place when present and appended otherwise, which is
  \<^const>\<open>AList.update\<close>.
\<close>

definition spread :: "obj \<Rightarrow> obj \<Rightarrow> obj" where
  "spread src acc = fold (\<lambda>(k, v). AList.update k v) src acc"

text \<open>
  The assignment \<open>ob[key] = value\<close> on a plain object is different for one key.
  \<open>JSON.parse\<close> defines a member named \<open>__proto__\<close> as an own property like any other,
  and \<open>Object.entries\<close> lists it; but \<open>__proto__\<close> is also an accessor of
  \<open>Object.prototype\<close>, and unless the target has an own property of that name the
  assignment runs the inherited setter, which ignores a string or a number, takes an
  object or \<open>null\<close> as the new prototype, and in no case creates an own property.
  Every other key is defined or overwritten. (The prototype is not part of what
  \<open>JSON.stringify\<close> writes, so the model does not keep it.)
\<close>

definition js_set :: "string \<Rightarrow> json \<Rightarrow> obj \<Rightarrow> obj" where
  "js_set key v ob =
     (if key = ''__proto__'' \<and> key \<notin> fst ` set ob then ob else AList.update key v ob)"

text \<open>The decimal spelling of an array index, as JavaScript names indexed properties.\<close>

fun string_of_nat :: "nat \<Rightarrow> string" where
  "string_of_nat n =
     (if n < 10 then [char_of (48 + n)]
      else string_of_nat (n div 10) @ [char_of (48 + n mod 10)])"

declare string_of_nat.simps [simp del]

text \<open>
  \<open>Object.entries\<close>: the own enumerable properties. An array and a string list their
  indices, a number and a boolean have none. On \<open>null\<close> it would throw, but it is never
  applied to \<open>null\<close>: \<open>settings.env\<close> is tested for truthiness first, and a document
  that is \<open>null\<close> has thrown before.
\<close>

fun Object_entries :: "json \<Rightarrow> obj" where
  "Object_entries (JObj kvs) = kvs"
| "Object_entries (JArr xs) = zip (map string_of_nat [0..<length xs]) xs"
| "Object_entries (JStr s) = zip (map string_of_nat [0..<length s]) (map (\<lambda>c. JStr [c]) s)"
| "Object_entries (JNum n) = []"
| "Object_entries (JBool b) = []"
| "Object_entries JNull = []"

section \<open>Strings\<close>

definition includes_str :: "string \<Rightarrow> string \<Rightarrow> bool" where
  "includes_str s t = sublist t s"

definition startsWith :: "string \<Rightarrow> string \<Rightarrow> bool" where
  "startsWith s t = prefix t s"

text \<open>\<open>s.replace(/\/anthropic$/, '')\<close>: the suffix is removed when the string ends with it.\<close>

definition strip_anthropic :: "string \<Rightarrow> string" where
  "strip_anthropic s =
     (if suffix ''/anthropic'' s then take (length s - length ''/anthropic'') s else s)"

section \<open>Provider registry\<close>

record ProviderRegion =
  id_region :: string
  name_region :: string
  baseUrl :: string
  apiKeyUrl :: string

record ProviderModel =
  id_model :: string
  name_model :: string
  thinking :: "bool option"
  default_model :: "bool option"

record Provider =
  id_provider :: string
  name_provider :: string
  description :: string
  regions :: "ProviderRegion list"
  models :: "ProviderModel list"
  getEnvOverrides :: "string \<Rightarrow> (string \<times> string) list"
  getValidateUrl :: "string \<Rightarrow> string"

definition claudeProvider :: Provider where
  "claudeProvider = \<lparr>
     id_provider = ''claude'',
     name_provider = ''Anthropic (Claude)'',
     description = ''Official Anthropic Claude API'',
     regions = [
       \<lparr>id_region = ''global'', name_region = ''Global'',
        baseUrl = ''https://api.anthropic.com'',
        apiKeyUrl = ''https://console.anthropic.com/settings/keys''\<rparr>],
     models = [
       \<lparr>id_model = ''claude-opus-4-5-20251120'', name_model = ''Claude Opus 4.5'',
        thinking = None, default_model = Some True\<rparr>,
       \<lparr>id_model = ''claude-sonnet-4-20250514'', name_model = ''Claude Sonnet 4'',
        thinking = None, default_model = None\<rparr>,
       \<lparr>id_model = ''claude-haiku-3-5-20250620'', name_model = ''Claude Haiku 3.5'',
        thinking = None, default_model = None\<rparr>,
       \<lparr>id_model = ''claude-3-5-sonnet-20241022'', name_model = ''Claude 3.5 Sonnet'',
        thinking = None, default_model = None\<rparr>,
       \<lparr>id_model = ''claude-3-opus-20240229'', name_model = ''Claude 3 Opus'',
        thinking = None, default_model = None\<rparr>,
       \<lparr>id_model = ''claude-3-sonnet-20240229'', name_model = ''Claude 3 Sonnet'',
        thinking = None, default_model = None\<rparr>,
       \<lparr>id_model = ''claude-3-haiku-20240307'', name_model = ''Claude 3 Haiku'',
        thinking = None, default_model = None\<rparr>],
     getEnvOverrides = (\<lambda>model. [(''ANTHROPIC_MODEL'', model)]),
     getValidateUrl = (\<lambda>regionId. ''https://api.anthropic.com/v1/models'')\<rparr>"

definition zhipuProvider :: Provider where
  "zhipuProvider = \<lparr>
     id_provider = ''zhipu'',
     name_provider = ''Z.AI / GLM'',
     description = ''Zhipu AI GLM Coding Plan'',
     regions = [
       \<lparr>id_region = ''global'', name_region = ''Global'',
        baseUrl = ''https://api.z.ai/api/anthropic'',
        apiKeyUrl = ''https://z.ai/manage-apikey/apikey-list''\<rparr>,
       \<lparr>id_region = ''china'', name_region = ''China'',
        baseUrl = ''https://open.bigmodel.cn/api/anthropic'',
        apiKeyUrl = ''https://bigmodel.cn/usercenter/proj-mgmt/apikeys''\<rparr>],
     models = [
       \<lparr>id_model = ''glm-5'', name_model = ''GLM-5'',
        thinking = None, default_model = Some True\<rparr>],
     getEnvOverrides = (\<lambda>model. []),
     getValidateUrl = (\<lambda>regionId.
       if regionId = ''global'' then ''https://api.z.ai/api/coding/paas/v4/models''
       else ''https://open.bigmodel.cn/api/coding/paas/v4/models'')\<rparr>"

definition minimaxProvider :: Provider where
  "minimaxProvider = \<lparr>
     id_provider = ''minimax'',
     name_provider = ''MiniMax'',
     description = ''MiniMax M2.5 AI Model'',
     regions = [
       \<lparr>id_region = ''global'', name_region = ''Global'',
        baseUrl = ''https://api.minimax.io/anthropic'',
        apiKeyUrl = ''https://platform.minimax.io/user-center/basic-information/interface-key''\<rparr>,
       \<lparr>id_region = ''china'', name_region = ''China'',
        baseUrl = ''https://api.minimaxi.com/anthropic'',
        apiKeyUrl = ''https://platform.minimaxi.com/user-center/basic-information/interface-key''\<rparr>],
     models = [
       \<lparr>id_model = ''MiniMax-M2.5'', name_model = ''MiniMax-M2.5'',
        thinking = None, default_model = Some True\<rparr>],
     getEnvOverrides = (\<lambda>model. [
       (''ANTHROPIC_MODEL'', model),
       (''ANTHROPIC_SMALL_FAST_MODEL'', model),
       (''ANTHROPIC_DEFAULT_SONNET_MODEL'', model),
       (''ANTHROPIC_DEFAULT_OPUS_MODEL'', model),
       (''ANTHROPIC_DEFAULT_HAIKU_MODEL'', model)]),
     getValidateUrl = (\<lambda>regionId.
       if regionId = ''global'' then ''https://api.minimax.io/anthropic/v1/models''
       else ''https://api.minimaxi.com/anthropic/v1/models'')\<rparr>"

definition kimiProvider :: Provider where
  "kimiProvider = \<lparr>
     id_provider = ''kimi'',
     name_provider = ''Kimi / Moonshot'',
     description = ''Moonshot AI Kimi K2 Models'',
     regions = [
       \<lparr>id_region = ''global'', name_region = ''Global'',
        baseUrl = ''https://api.moonshot.ai/anthropic'',
        apiKeyUrl = ''https://platform.moonshot.ai/console/api-keys''\<rparr>],
     models = [
       \<lparr>id_model = ''kimi-k2.5'', name_model = ''Kimi K2.5 (Latest)'',
        thinking = None, default_model = Some True\<rparr>,
       \<lparr>id_model = ''kimi-k2-thinking-turbo'', name_model = ''Kimi K2 Thinking Turbo'',
        thinking = Some True, default_model = None\<rparr>,
       \<lparr>id_model = ''kimi-k2-turbo-preview'', name_model = ''Kimi K2 Turbo Preview (Fast)'',
        thinking = None, default_model = None\<rparr>,
       \<lparr>id_model = ''kimi-k2-0905-preview'', name_model = ''Kimi K2 0905 Preview (256K)'',
        thinking = None, default_model = None\<rparr>],
     getEnvOverrides = (\<lambda>model. [
       (''ANTHROPIC_MODEL'', model),
       (''ANTHROPIC_DEFAULT_SONNET_MODEL'', model),
       (''ANTHROPIC_DEFAULT_OPUS_MODEL'', model),
       (''ANTHROPIC_DEFAULT_HAIKU_MODEL'', model),
       (''CLAUDE_CODE_SUBAGENT_MODEL'', model)]),
     getValidateUrl = (\<lambda>regionId. ''https://api.moonshot.ai/v1/models'')\<rparr>"

definition providers :: "Provider list" where
  "providers = [claudeProvider, zhipuProvider, minimaxProvider, kimiProvider]"

definition getProvider :: "string \<Rightarrow> Provider option" where
  "getProvider i = find (\<lambda>p. id_provider p = i) providers"

definition detectProviderByBaseUrl :: "string \<Rightarrow> Provider option" where
  "detectProviderByBaseUrl url =
     find (\<lambda>p. list_ex (\<lambda>r. startsWith url (strip_anthropic (baseUrl r))) (regions p)) providers"

section \<open>The settings manager\<close>

text \<open>
  The environment of the program: a file system that maps the path of a regular file to
  its content (directories are created by the program before each write, so they are
  left out), the home directory, the clock reading used for a backup's name, and the
  platform's \<open>JSON.parse\<close> and \<open>JSON.stringify\<close>. \<open>JSON_parse\<close> answers with any JSON
  value, or with \<open>None\<close> when it throws; \<open>JSON_stringify\<close> is only ever applied to an
  object. Reading and writing a file does not fail.
\<close>

type_synonym fs = "string \<rightharpoonup> string"

record js_runtime =
  JSON_parse :: "string \<Rightarrow> json option"
  JSON_stringify :: "obj \<Rightarrow> string"

datatype error =
    BackupNotFound string
  | SyntaxError
  | UnknownRegion string
  | TypeError

definition MANAGED_ENV_KEYS :: "string list" where
  "MANAGED_ENV_KEYS = [
     ''ANTHROPIC_AUTH_TOKEN'',
     ''ANTHROPIC_BASE_URL'',
     ''API_TIMEOUT_MS'',
     ''CLAUDE_CODE_DISABLE_NONESSENTIAL_TRAFFIC'',
     ''ANTHROPIC_MODEL'',
     ''ANTHROPIC_SMALL_FAST_MODEL'',
     ''ANTHROPIC_DEFAULT_SONNET_MODEL'',
     ''ANTHROPIC_DEFAULT_OPUS_MODEL'',
     ''ANTHROPIC_DEFAULT_HAIKU_MODEL'',
     ''CLAUDE_CODE_SUBAGENT_MODEL'']"

record ClaudeCodeManager =
  settingsPath :: string
  configPath :: string
  backupDir :: string

text \<open>\<open>path.join\<close> on segments that need no normalisation.\<close>

fun path_join :: "string list \<Rightarrow> string" where
  "path_join [] = ''.''"
| "path_join [a] = a"
| "path_join (a # b # rest) = a @ ''/'' @ path_join (b # rest)"

definition getInstance :: "string \<Rightarrow> ClaudeCodeManager" where
  "getInstance homedir = \<lparr>
     settingsPath = path_join [homedir, ''.claude'', ''settings.json''],
     configPath = path_join [homedir, ''.claude.json''],
     backupDir = path_join [homedir, ''.ccs'', ''backups'']\<rparr>"

subsection \<open>Reading and writing the two documents\<close>

text \<open>
  \<open>getSettings\<close> and \<open>getConfig\<close> return what \<open>JSON.parse\<close> gives, unchecked, and the empty
  object when the file is missing or does not parse. The declared result types are
  objects, but a file that holds \<open>null\<close>, a number, a string or an array gives that value.
\<close>

definition getSettings :: "js_runtime \<Rightarrow> ClaudeCodeManager \<Rightarrow> fs \<Rightarrow> json" where
  "getSettings rt mgr files =
     (case files (settingsPath mgr) of
        None \<Rightarrow> JObj []
      | Some content \<Rightarrow>
          (case JSON_parse rt content of None \<Rightarrow> JObj [] | Some settings \<Rightarrow> settings))"

definition saveSettings :: "js_runtime \<Rightarrow> ClaudeCodeManager \<Rightarrow> obj \<Rightarrow> fs \<Rightarrow> fs" where
  "saveSettings rt mgr settings files = files(settingsPath mgr \<mapsto> JSON_stringify rt settings)"

definition getConfig :: "js_runtime \<Rightarrow> ClaudeCodeManager \<Rightarrow> fs \<Rightarrow> json" where
  "getConfig rt mgr files =
     (case files (configPath mgr) of
        None \<Rightarrow> JObj []
      | Some content \<Rightarrow>
          (case JSON_parse rt content of None \<Rightarrow> JObj [] | Some config \<Rightarrow> config))"

text \<open>
  What the program does with a document it has read is to read named properties of it
  (\<open>config.hasCompletedOnboarding\<close>, \<open>settings.env\<close>, \<open>settings.model\<close>) and to spread it into
  an object literal, and in each function the first of these is a property read. On
  \<open>null\<close> that read throws a \<open>TypeError\<close>. Any other value answers as the object of its own
  enumerable properties: those of an object are its members, those of a string or an
  array are its indices, a number or a boolean has none, and no index is one of the
  names read (\<open>document_reads\<close> below).
\<close>

fun document_of :: "json \<Rightarrow> error + obj" where
  "document_of JNull = Inl TypeError"
| "document_of j = Inr (Object_entries j)"

definition saveConfig :: "js_runtime \<Rightarrow> ClaudeCodeManager \<Rightarrow> obj \<Rightarrow> fs \<Rightarrow> fs" where
  "saveConfig rt mgr config files = files(configPath mgr \<mapsto> JSON_stringify rt config)"

subsection \<open>Backup and restore\<close>

text \<open>
  \<open>isoTime\<close> is what \<open>new Date().toISOString()\<close> returns at the call; the name of the backup
  replaces each colon and dot of it by a dash. The result is the path of the backup and
  the file system with the backup written.
\<close>

definition backupPathOf :: "ClaudeCodeManager \<Rightarrow> string \<Rightarrow> string" where
  "backupPathOf mgr isoTime =
     (let timestamp = map (\<lambda>c. if c = CHR '':'' \<or> c = CHR ''.'' then CHR ''-'' else c) isoTime
      in path_join [backupDir mgr, ''settings-'' @ timestamp @ ''.json''])"

definition createBackup :: "ClaudeCodeManager \<Rightarrow> string \<Rightarrow> fs \<Rightarrow> string \<times> fs" where
  "createBackup mgr isoTime files =
     (let backupPath = backupPathOf mgr isoTime in
      case files (settingsPath mgr) of
        Some content \<Rightarrow> (backupPath, files(backupPath \<mapsto> content))
      | None \<Rightarrow> (backupPath, files(backupPath \<mapsto> ''{}'')))"

definition restoreBackup ::
  "js_runtime \<Rightarrow> ClaudeCodeManager \<Rightarrow> string \<Rightarrow> fs \<Rightarrow> error + fs" where
  "restoreBackup rt mgr backupPath files =
     (case files backupPath of
        None \<Rightarrow> Inl (BackupNotFound backupPath)
      | Some content \<Rightarrow>
          (case JSON_parse rt content of
             None \<Rightarrow> Inl SyntaxError
           | Some parsed \<Rightarrow> Inr (files(settingsPath mgr \<mapsto> content))))"

subsection \<open>Onboarding\<close>

text \<open>The result is the error thrown, or the file system after the call.\<close>

definition ensureOnboarding :: "js_runtime \<Rightarrow> ClaudeCodeManager \<Rightarrow> fs \<Rightarrow> error + fs" where
  "ensureOnboarding rt mgr files =
     (case document_of (getConfig rt mgr files) of
        Inl e \<Rightarrow> Inl e
      | Inr config \<Rightarrow>
          if \<not> truthy (map_of config ''hasCompletedOnboarding'')
          then Inr (saveConfig rt mgr
                 (AList.update ''hasCompletedOnboarding'' (JBool True) (spread config [])) files)
          else Inr files)"

subsection \<open>Applying a provider\<close>

text \<open>
  The body of \<open>loadProviderConfig\<close> after the region is found, in the order of the
  source: \<open>existingEnv\<close> is \<open>settings.env || {}\<close>; \<open>cleanEnv\<close> is the loop over its entries;
  \<open>newEnv\<close> is the object literal that spreads the cleaned entries and sets the four base
  keys, followed by the loop that assigns the provider's overrides; \<open>loadedSettings\<close> is
  the document handed to \<open>saveSettings\<close>.
\<close>

definition existingEnv :: "obj \<Rightarrow> json" where
  "existingEnv settings =
     (case map_of settings ''env'' of
        None \<Rightarrow> JObj []
      | Some e \<Rightarrow> if truthy (Some e) then e else JObj [])"

text \<open>
  The loop that copies every entry whose key is not managed into a fresh object, by
  the assignment \<open>cleanedEnv[key] = value\<close>.
\<close>

definition cleanEnv :: "obj \<Rightarrow> obj" where
  "cleanEnv entries =
     fold (\<lambda>(key, v) cleanedEnv.
             if key \<in> set MANAGED_ENV_KEYS then cleanedEnv else js_set key v cleanedEnv)
          entries []"

definition newEnv :: "Provider \<Rightarrow> ProviderRegion \<Rightarrow> string \<Rightarrow> string \<Rightarrow> obj \<Rightarrow> obj" where
  "newEnv provider region modelId apiKey settings =
     (let cleanedEnv = cleanEnv (Object_entries (existingEnv settings));
          base =
            AList.update ''CLAUDE_CODE_DISABLE_NONESSENTIAL_TRAFFIC'' (JNum 1)
              (AList.update ''API_TIMEOUT_MS'' (JStr ''3000000'')
                (AList.update ''ANTHROPIC_BASE_URL'' (JStr (baseUrl region))
                  (AList.update ''ANTHROPIC_AUTH_TOKEN'' (JStr apiKey)
                    (spread cleanedEnv []))));
          overrides = getEnvOverrides provider modelId
      in fold (\<lambda>(key, v). js_set key (JStr v)) overrides base)"

definition mapModelToSetting :: "string \<Rightarrow> string \<Rightarrow> string" where
  "mapModelToSetting modelId providerId =
     (if providerId = ''claude'' then
        (if includes_str modelId ''opus'' then ''opus''
         else if includes_str modelId ''sonnet'' then ''sonnet''
         else if includes_str modelId ''haiku'' then ''haiku''
         else modelId)
      else modelId)"

text \<open>\<open>{...settings, env: newEnv, model: modelSetting}\<close>\<close>

definition loadedSettings ::
  "Provider \<Rightarrow> ProviderRegion \<Rightarrow> string \<Rightarrow> string \<Rightarrow> obj \<Rightarrow> obj" where
  "loadedSettings provider region modelId apiKey settings =
     (let modelSetting = mapModelToSetting modelId (id_provider provider) in
      AList.update ''model'' (JStr modelSetting)
        (AList.update ''env'' (JObj (newEnv provider region modelId apiKey settings))
          (spread settings [])))"


text \<open>
  The function of the current document alone that \<open>loadProviderConfig\<close> computes, for a
  document that is an object: the region is looked up, then the new document is built.
\<close>

definition apply_doc :: "Provider \<Rightarrow> string \<Rightarrow> string \<Rightarrow> string \<Rightarrow> obj \<Rightarrow> error + obj" where
  "apply_doc provider regionId modelId apiKey settings =
     (case find (\<lambda>r. id_region r = regionId) (regions provider) of
        None \<Rightarrow> Inl (UnknownRegion regionId)
      | Some region \<Rightarrow> Inr (loadedSettings provider region modelId apiKey settings))"

subsection \<open>Removing the provider\<close>

text \<open>
  \<open>unloadedSettings\<close> is the body of \<open>unloadProviderConfig\<close> after its read of the
  settings. \<open>None\<close> is the early return: nothing to remove, nothing written. Otherwise
  the result is \<open>newSettings\<close>, which starts as the empty object and gets the cleaned
  \<open>env\<close> when that has a key.
\<close>

definition unloadedSettings :: "obj \<Rightarrow> obj option" where
  "unloadedSettings settings =
     (if \<not> truthy (map_of settings ''env'') \<and> \<not> truthy (map_of settings ''model'') then None
      else
        (let cleanedEnv =
               (case map_of settings ''env'' of
                  None \<Rightarrow> []
                | Some e \<Rightarrow> if truthy (Some e) then cleanEnv (Object_entries e) else []);
             newSettings =
               (if length (map fst cleanedEnv) > 0 then js_set ''env'' (JObj cleanedEnv) [] else [])
         in Some newSettings))"

definition unloadProviderConfig ::
  "js_runtime \<Rightarrow> ClaudeCodeManager \<Rightarrow> string \<Rightarrow> fs \<Rightarrow> error option \<times> fs" where
  "unloadProviderConfig rt mgr isoTime files =
     (let files1 = snd (createBackup mgr isoTime files) in
      case document_of (getSettings rt mgr files1) of
        Inl e \<Rightarrow> (Some e, files1)
      | Inr settings \<Rightarrow>
          (case unloadedSettings settings of
             None \<Rightarrow> (None, files1)
           | Some newSettings \<Rightarrow> (None, saveSettings rt mgr newSettings files1)))"

text \<open>
  The document that is in place after \<open>unloadProviderConfig\<close>, as a function of the one
  before, for a document that is an object.
\<close>

definition unload_doc :: "obj \<Rightarrow> obj" where
  "unload_doc settings =
     (case unloadedSettings settings of None \<Rightarrow> settings | Some newSettings \<Rightarrow> newSettings)"

subsection \<open>Detecting the provider\<close>

record detected =
  det_provider :: "Provider option"
  det_regionId :: "string option"
  det_apiKey :: "json option"
  det_baseUrl :: "json option"
  det_model :: "json option"

text \<open>
  \<open>detect_doc\<close> is \<open>detectCurrentConfig\<close> after its read of the settings. A base URL
  that is truthy but not a string has no \<open>startsWith\<close> method: the call throws.
\<close>

definition detect_doc :: "obj \<Rightarrow> error + detected" where
  "detect_doc settings =
     (let env = existingEnv settings;
          url = get_prop env ''ANTHROPIC_BASE_URL'';
          apiKey = get_prop env ''ANTHROPIC_AUTH_TOKEN'';
          model = get_prop env ''ANTHROPIC_MODEL'' in
      if \<not> truthy url \<or> \<not> truthy apiKey then
        Inr \<lparr>det_provider = None, det_regionId = None, det_apiKey = None,
             det_baseUrl = None, det_model = None\<rparr>
      else
        (case url of
           Some (JStr b) \<Rightarrow>
             (let provider = detectProviderByBaseUrl b;
                  regionId =
                    (case provider of
                       None \<Rightarrow> None
                     | Some p \<Rightarrow> map_option id_region (find (\<lambda>r. baseUrl r = b) (regions p)))
              in Inr \<lparr>det_provider = provider, det_regionId = regionId, det_apiKey = apiKey,
                      det_baseUrl = url, det_model = model\<rparr>)
         | _ \<Rightarrow> Inl TypeError))"

definition detectCurrentConfig :: "js_runtime \<Rightarrow> ClaudeCodeManager \<Rightarrow> fs \<Rightarrow> error + detected" where
  "detectCurrentConfig rt mgr files =
     (case document_of (getSettings rt mgr files) of
        Inl e \<Rightarrow> Inl e
      | Inr settings \<Rightarrow> detect_doc settings)"

subsection \<open>A runtime for examples\<close>

text \<open>
  A finite table in place of the platform's JSON functions, on the four documents the
  examples below read and write; any other text does not parse.
\<close>

definition demo_rt :: js_runtime where
  "demo_rt = \<lparr>
     JSON_parse = (\<lambda>s. if s = ''{}'' then Some (JObj [])
                        else if s = ''null'' then Some JNull
                        else if s = ''{\"theme\":\"dark\"}''
                        then Some (JObj [(''theme'', JStr ''dark'')])
                        else if s = ''{\"hasCompletedOnboarding\":true}''
                        then Some (JObj [(''hasCompletedOnboarding'', JBool True)])
                        else None),
     JSON_stringify = (\<lambda>d. if d = [] then ''{}''
                        else if d = [(''theme'', JStr ''dark'')] then ''{\"theme\":\"dark\"}''
                        else if d = [(''hasCompletedOnboarding'', JBool True)]
                        then ''{\"hasCompletedOnboarding\":true}''
                        else ''?'')\<rparr>"

section \<open>Objects with distinct keys\<close>

lemma update_fresh: "k \<notin> fst ` set acc \<Longrightarrow> AList.update k v acc = acc @ [(k, v)]"
  by (induction acc) auto

lemma spread_append:
  "distinct (map fst src) \<Longrightarrow> fst ` set src \<inter> fst ` set acc = {} \<Longrightarrow> spread src acc = acc @ src"
  unfolding spread_def
proof (induction src arbitrary: acc)
  case Nil
  then show ?case by simp
next
  case (Cons e src)
  obtain k v where e: "e = (k, v)" by (cases e)
  have fresh: "k \<notin> fst ` set acc" using Cons.prems(2) by (auto simp: e)
  have d: "distinct (map fst src)" and nk: "k \<notin> fst ` set src"
    using Cons.prems(1) by (auto simp: e)
  have disj: "fst ` set src \<inter> fst ` set (acc @ [(k, v)]) = {}"
    using Cons.prems(2) nk by (auto simp: e)
  show ?case
    using Cons.IH [OF d disj] by (simp add: e update_fresh [OF fresh])
qed

lemma spread_distinct: "distinct (map fst src) \<Longrightarrow> spread src [] = src"
  using spread_append [of src "[]"] by simp

lemma keys_spread: "fst ` set (spread src acc) = fst ` set src \<union> fst ` set acc"
  unfolding spread_def
proof (induction src arbitrary: acc)
  case Nil
  then show ?case by simp
next
  case (Cons e src)
  obtain k v where e: "e = (k, v)" by (cases e)
  have "fst ` set (fold (\<lambda>(k, v). AList.update k v) src (AList.update k v acc))
        = fst ` set src \<union> ({k} \<union> fst ` set acc)"
    by (simp only: Cons.IH dom_update)
  then show ?case by (simp add: e)
qed

lemma js_set_proto: "''__proto__'' \<notin> fst ` set ob \<Longrightarrow> js_set ''__proto__'' v ob = ob"
  by (simp add: js_set_def)

lemma js_set_other: "k \<noteq> ''__proto__'' \<Longrightarrow> js_set k v ob = AList.update k v ob"
  by (simp add: js_set_def)

lemma js_set_fresh:
  "k \<noteq> ''__proto__'' \<Longrightarrow> k \<notin> fst ` set ob \<Longrightarrow> js_set k v ob = ob @ [(k, v)]"
  by (simp add: js_set_def update_fresh)

lemma keys_js_set: "fst ` set (js_set k v ob) \<subseteq> insert k (fst ` set ob)"
  by (auto simp: js_set_def dom_update)

section \<open>The cleaning loop\<close>

lemma managed_not_in_cleanEnv_fold:
  "K \<in> set MANAGED_ENV_KEYS \<Longrightarrow> K \<notin> fst ` set acc \<Longrightarrow>
   K \<notin> fst ` set (fold (\<lambda>(key, v) cleanedEnv.
             if key \<in> set MANAGED_ENV_KEYS then cleanedEnv else js_set key v cleanedEnv) entries acc)"
proof (induction entries arbitrary: acc)
  case Nil
  then show ?case by simp
next
  case (Cons e entries)
  obtain k v where e: "e = (k, v)" by (cases e)
  show ?case
  proof (cases "k \<in> set MANAGED_ENV_KEYS")
    case True
    have "K \<notin> fst ` set (fold (\<lambda>(key, v) cleanedEnv.
             if key \<in> set MANAGED_ENV_KEYS then cleanedEnv else js_set key v cleanedEnv) entries acc)"
      using Cons.prems by (rule Cons.IH)
    then show ?thesis using True by (simp add: e)
  next
    case False
    have "K \<noteq> k" using False Cons.prems(1) by blast
    moreover have "fst ` set (js_set k v acc) \<subseteq> insert k (fst ` set acc)"
      by (rule keys_js_set)
    ultimately have "K \<notin> fst ` set (js_set k v acc)"
      using Cons.prems(2) by blast
    then have "K \<notin> fst ` set (fold (\<lambda>(key, v) cleanedEnv.
             if key \<in> set MANAGED_ENV_KEYS then cleanedEnv else js_set key v cleanedEnv) entries
             (js_set k v acc))"
      using Cons.prems(1) by (intro Cons.IH)
    then show ?thesis using False by (simp add: e)
  qed
qed

lemma managed_not_in_cleanEnv:
  "K \<in> set MANAGED_ENV_KEYS \<Longrightarrow> K \<notin> fst ` set (cleanEnv entries)"
  using managed_not_in_cleanEnv_fold [of K "[]" entries] by (simp add: cleanEnv_def)

text \<open>
  On an object with distinct keys the loop is a filter: it keeps, in order, the entries
  whose key is neither managed nor \<open>__proto__\<close>.
\<close>

lemma cleanEnv_fold_filter:
  "distinct (map fst entries) \<Longrightarrow> fst ` set entries \<inter> fst ` set acc = {} \<Longrightarrow>
   ''__proto__'' \<notin> fst ` set acc \<Longrightarrow>
   fold (\<lambda>(key, v) cleanedEnv.
           if key \<in> set MANAGED_ENV_KEYS then cleanedEnv else js_set key v cleanedEnv) entries acc
   = acc @ filter (\<lambda>(k, v). k \<notin> set MANAGED_ENV_KEYS \<and> k \<noteq> ''__proto__'') entries"
proof (induction entries arbitrary: acc)
  case Nil
  then show ?case by simp
next
  case (Cons e entries)
  obtain k v where e: "e = (k, v)" by (cases e)
  have fresh: "k \<notin> fst ` set acc" using Cons.prems(2) by (auto simp: e)
  have d: "distinct (map fst entries)" and nk: "k \<notin> fst ` set entries"
    using Cons.prems(1) by (auto simp: e)
  have disj: "fst ` set entries \<inter> fst ` set acc = {}"
    using Cons.prems(2) by (auto simp: e)
  consider (managed) "k \<in> set MANAGED_ENV_KEYS"
    | (proto) "k \<notin> set MANAGED_ENV_KEYS" "k = ''__proto__''"
    | (keep) "k \<notin> set MANAGED_ENV_KEYS" "k \<noteq> ''__proto__''" by blast
  then show ?case
  proof cases
    case managed
    then show ?thesis using Cons.IH [OF d disj Cons.prems(3)] by (simp add: e)
  next
    case proto
    have "js_set k v acc = acc" using proto(2) Cons.prems(3) by (simp add: js_set_proto)
    then show ?thesis using Cons.IH [OF d disj Cons.prems(3)] proto by (simp add: e)
  next
    case keep
    have s: "js_set k v acc = acc @ [(k, v)]" using keep(2) fresh by (rule js_set_fresh)
    have disj': "fst ` set entries \<inter> fst ` set (acc @ [(k, v)]) = {}"
      using disj nk by auto
    have p': "''__proto__'' \<notin> fst ` set (acc @ [(k, v)])"
      using Cons.prems(3) keep(2) by auto
    show ?thesis using Cons.IH [OF d disj' p'] keep by (simp add: e s)
  qed
qed

lemma cleanEnv_filter:
  "distinct (map fst entries) \<Longrightarrow>
   cleanEnv entries =
     filter (\<lambda>(k, v). k \<notin> set MANAGED_ENV_KEYS \<and> k \<noteq> ''__proto__'') entries"
  using cleanEnv_fold_filter [of entries "[]"] by (simp add: cleanEnv_def)

section \<open>The scenario of the kimi provider\<close>

lemma kimi_doc:
  "apply_doc kimiProvider ''global'' ''kimi-k2.5'' ''sk-test'' [] =
     Inr [(''env'', JObj [
            (''ANTHROPIC_AUTH_TOKEN'', JStr ''sk-test''),
            (''ANTHROPIC_BASE_URL'', JStr ''https://api.moonshot.ai/anthropic''),
            (''API_TIMEOUT_MS'', JStr ''3000000''),
            (''CLAUDE_CODE_DISABLE_NONESSENTIAL_TRAFFIC'', JNum 1),
            (''ANTHROPIC_MODEL'', JStr ''kimi-k2.5''),
            (''ANTHROPIC_DEFAULT_SONNET_MODEL'', JStr ''kimi-k2.5''),
            (''ANTHROPIC_DEFAULT_OPUS_MODEL'', JStr ''kimi-k2.5''),
            (''ANTHROPIC_DEFAULT_HAIKU_MODEL'', JStr ''kimi-k2.5''),
            (''CLAUDE_CODE_SUBAGENT_MODEL'', JStr ''kimi-k2.5'')]),
          (''model'', JStr ''kimi-k2.5'')]"
  by (simp add: apply_doc_def kimiProvider_def loadedSettings_def newEnv_def cleanEnv_def
        existingEnv_def spread_def js_set_def mapModelToSetting_def)

lemma getProvider_kimi: "getProvider ''kimi'' = Some kimiProvider"
  by (simp add: getProvider_def providers_def claudeProvider_def zhipuProvider_def
        minimaxProvider_def kimiProvider_def)

text \<open>
  Claim C9. The provider registered as \<open>kimi\<close>, applied with region \<open>global\<close>, model
  \<open>kimi-k2.5\<close> and credential \<open>sk-test\<close> to the empty document, gives a document whose
  \<open>env.ANTHROPIC_BASE_URL\<close> is \<open>https://api.moonshot.ai/anthropic\<close>, whose
  \<open>env.ANTHROPIC_MODEL\<close> is \<open>kimi-k2.5\<close> and whose \<open>model\<close> is \<open>kimi-k2.5\<close>.
\<close>

theorem kimi_scenario:
  "getProvider ''kimi'' = Some kimiProvider \<and>
   (case apply_doc kimiProvider ''global'' ''kimi-k2.5'' ''sk-test'' [] of
      Inl e \<Rightarrow> False
    | Inr S \<Rightarrow>
        get_prop (existingEnv S) ''ANTHROPIC_BASE_URL''
          = Some (JStr ''https://api.moonshot.ai/anthropic'')
      \<and> get_prop (existingEnv S) ''ANTHROPIC_MODEL'' = Some (JStr ''kimi-k2.5'')
      \<and> map_of S ''model'' = Some (JStr ''kimi-k2.5''))"
  by (simp add: getProvider_kimi kimi_doc existingEnv_def)

section \<open>The file system\<close>

text \<open>The three places the manager writes to are different paths, whatever the home directory.\<close>

lemma settings_ne_backup:
  "settingsPath (getInstance homedir) \<noteq> backupPathOf (getInstance homedir) t"
  by (simp add: getInstance_def backupPathOf_def)



lemma createBackup_files:
  "snd (createBackup mgr t files) =
     files(backupPathOf mgr t \<mapsto> (case files (settingsPath mgr) of Some c \<Rightarrow> c | None \<Rightarrow> ''{}''))"
  by (simp add: createBackup_def Let_def split: option.splits)

lemma getSettings_cong:
  "files' (settingsPath mgr) = files (settingsPath mgr) \<Longrightarrow>
   getSettings rt mgr files' = getSettings rt mgr files"
  by (simp add: getSettings_def)



section \<open>Documents that are not objects\<close>

lemma document_of_JObj: "document_of (JObj D) = Inr D"
  by simp


lemma document_of_Inl: "document_of j = Inl e \<longleftrightarrow> j = JNull \<and> e = TypeError"
  by (cases j) auto

text \<open>An index is spelled with digits only, so it is none of the names the program reads.\<close>

lemma digit_char: "(n::nat) < 10 \<Longrightarrow> char_of (48 + n) \<in> set ''0123456789''"
proof -
  assume "n < 10"
  then consider "n = 0" | "n = 1" | "n = 2" | "n = 3" | "n = 4" | "n = 5" | "n = 6"
    | "n = 7" | "n = 8" | "n = 9"
    by atomize_elim arith
  then show ?thesis
    by cases (simp, code_simp)+
qed

lemma string_of_nat_digits: "set (string_of_nat n) \<subseteq> set ''0123456789''"
proof (induction n rule: string_of_nat.induct)
  case (1 n)
  show ?case
  proof (cases "n < 10")
    case True
    then show ?thesis
      using digit_char [of n] by (subst string_of_nat.simps) simp
  next
    case False
    have "n mod 10 < 10" by simp
    then have "char_of (48 + n mod 10) \<in> set ''0123456789''" by (rule digit_char)
    then show ?thesis
      using 1 False by (subst string_of_nat.simps) simp
  qed
qed

lemma index_keys:
  "k \<in> set (map string_of_nat ns) \<Longrightarrow> set k \<subseteq> set ''0123456789''"
  using string_of_nat_digits by auto

lemma map_of_index_None:
  assumes "\<not> set k \<subseteq> set ''0123456789''"
  shows "map_of (zip (map string_of_nat ns) vs) k = None"
proof -
  have "k \<notin> set (map string_of_nat ns)"
    using assms index_keys by blast
  then have "k \<notin> fst ` set (zip (map string_of_nat ns) vs)"
    by (metis (no_types, lifting) imageE in_set_zipE prod.collapse)
  then show ?thesis by (simp add: map_of_eq_None_iff)
qed

lemma document_reads:
  assumes "\<not> set k \<subseteq> set ''0123456789''"
  shows "map_of (Object_entries j) k = get_prop j k"
  using assms by (cases j) (simp_all add: map_of_index_None)

lemma document_reads_names:
  "map_of (Object_entries j) ''env'' = get_prop j ''env''"
  "map_of (Object_entries j) ''model'' = get_prop j ''model''"
  "map_of (Object_entries j) ''hasCompletedOnboarding'' = get_prop j ''hasCompletedOnboarding''"
  by (rule document_reads, simp)+

section \<open>What the calls leave in the file system\<close>


lemma ensureOnboarding_null:
  "ensureOnboarding rt mgr files = Inl e \<longleftrightarrow> getConfig rt mgr files = JNull \<and> e = TypeError"
  by (auto simp: ensureOnboarding_def document_of_Inl split: sum.splits if_splits)


lemma unloadProviderConfig_settings_file:
  assumes "document_of (getSettings rt (getInstance homedir) files) = Inr settings"
  shows "fst (unloadProviderConfig rt (getInstance homedir) isoTime files) = None \<and>
    snd (unloadProviderConfig rt (getInstance homedir) isoTime files)
      (settingsPath (getInstance homedir)) =
     (case unloadedSettings settings of
        None \<Rightarrow> files (settingsPath (getInstance homedir))
      | Some newSettings \<Rightarrow> Some (JSON_stringify rt newSettings))"
proof -
  have "getSettings rt (getInstance homedir) (snd (createBackup (getInstance homedir) isoTime files))
        = getSettings rt (getInstance homedir) files"
    by (rule getSettings_cong) (simp add: createBackup_files settings_ne_backup)
  then show ?thesis
    using assms
    by (simp add: unloadProviderConfig_def Let_def saveSettings_def createBackup_files
          settings_ne_backup split: option.splits)
qed

lemma unloadProviderConfig_null:
  assumes "getSettings rt (getInstance homedir) files = JNull"
  shows "fst (unloadProviderConfig rt (getInstance homedir) isoTime files) = Some TypeError \<and>
    snd (unloadProviderConfig rt (getInstance homedir) isoTime files)
      (settingsPath (getInstance homedir)) = files (settingsPath (getInstance homedir))"
proof -
  have "getSettings rt (getInstance homedir) (snd (createBackup (getInstance homedir) isoTime files))
        = getSettings rt (getInstance homedir) files"
    by (rule getSettings_cong) (simp add: createBackup_files settings_ne_backup)
  then show ?thesis
    using assms
    by (simp add: unloadProviderConfig_def Let_def createBackup_files settings_ne_backup)
qed

section \<open>Restoring a backup\<close>

text \<open>
  Claim C5. \<open>restoreBackup\<close> fails with the backup-not-found error when no file is at
  the path, fails with the parser's syntax error when the content of the file does not
  parse as JSON, and otherwise makes the content of the live settings file the content
  of the backup, byte for byte, whatever the live file held before; no other file changes.
\<close>

theorem restoreBackup_outcomes:
  "(files backupPath = None \<longrightarrow>
      restoreBackup rt mgr backupPath files = Inl (BackupNotFound backupPath)) \<and>
   (\<forall>content. files backupPath = Some content \<and> JSON_parse rt content = None \<longrightarrow>
      restoreBackup rt mgr backupPath files = Inl SyntaxError) \<and>
   (\<forall>content parsed. files backupPath = Some content \<and> JSON_parse rt content = Some parsed \<longrightarrow>
      restoreBackup rt mgr backupPath files = Inr (files(settingsPath mgr \<mapsto> content)))"
  by (simp add: restoreBackup_def)

theorem restoreBackup_outcomes_witness:
  "restoreBackup demo_rt (getInstance ''/home/u'') ''/tmp/missing.json''
     [''/tmp/b.json'' \<mapsto> ''{\"theme\":\"dark\"}'', ''/tmp/bad.json'' \<mapsto> ''{not json'']
     = Inl (BackupNotFound ''/tmp/missing.json'') \<and>
   restoreBackup demo_rt (getInstance ''/home/u'') ''/tmp/bad.json''
     [''/tmp/b.json'' \<mapsto> ''{\"theme\":\"dark\"}'', ''/tmp/bad.json'' \<mapsto> ''{not json'']
     = Inl SyntaxError \<and>
   (\<exists>files'. restoreBackup demo_rt (getInstance ''/home/u'') ''/tmp/b.json''
     [''/tmp/b.json'' \<mapsto> ''{\"theme\":\"dark\"}'', ''/tmp/bad.json'' \<mapsto> ''{not json''] = Inr files'
     \<and> files' ''/home/u/.claude/settings.json'' = Some ''{\"theme\":\"dark\"}'')"
  using restoreBackup_outcomes [where rt = demo_rt and mgr = "getInstance ''/home/u''"
      and backupPath = "''/tmp/missing.json''"
      and files = "[''/tmp/b.json'' \<mapsto> ''{\"theme\":\"dark\"}'', ''/tmp/bad.json'' \<mapsto> ''{not json'']"]
    restoreBackup_outcomes [where rt = demo_rt and mgr = "getInstance ''/home/u''"
      and backupPath = "''/tmp/bad.json''"
      and files = "[''/tmp/b.json'' \<mapsto> ''{\"theme\":\"dark\"}'', ''/tmp/bad.json'' \<mapsto> ''{not json'']"]
    restoreBackup_outcomes [where rt = demo_rt and mgr = "getInstance ''/home/u''"
      and backupPath = "''/tmp/b.json''"
      and files = "[''/tmp/b.json'' \<mapsto> ''{\"theme\":\"dark\"}'', ''/tmp/bad.json'' \<mapsto> ''{not json'']"]
  by (simp add: demo_rt_def getInstance_def)

section \<open>The region check\<close>












section \<open>Removing a provider when there is nothing to remove\<close>

text \<open>
  Claim C7. When the settings document has no \<open>env\<close> and no \<open>model\<close> field, whatever its
  other keys, \<open>unloadProviderConfig\<close> takes its early return (nothing to remove), throws
  nothing, and the settings file keeps its content; the only file that changes is the
  backup written at the start.
\<close>

theorem unload_nothing_to_remove:
  assumes "document_of (getSettings rt (getInstance homedir) files) = Inr D"
    and "map_of D ''env'' = None"
    and "map_of D ''model'' = None"
  shows "unloadedSettings D = None \<and>
    fst (unloadProviderConfig rt (getInstance homedir) isoTime files) = None \<and>
    snd (unloadProviderConfig rt (getInstance homedir) isoTime files)
      (settingsPath (getInstance homedir)) = files (settingsPath (getInstance homedir)) \<and>
    (\<forall>p. p \<noteq> backupPathOf (getInstance homedir) isoTime \<longrightarrow>
       snd (unloadProviderConfig rt (getInstance homedir) isoTime files) p = files p)"
proof -
  define mgr where "mgr = getInstance homedir"
  have u: "unloadedSettings D = None"
    using assms(2,3) by (simp add: unloadedSettings_def)
  have g: "getSettings rt mgr (snd (createBackup mgr isoTime files)) = getSettings rt mgr files"
    by (rule getSettings_cong) (simp add: createBackup_files mgr_def settings_ne_backup)
  have a: "document_of (getSettings rt mgr files) = Inr D"
    using assms(1) by (simp add: mgr_def)
  have r: "unloadProviderConfig rt mgr isoTime files = (None, snd (createBackup mgr isoTime files))"
    by (simp add: unloadProviderConfig_def Let_def g a u)
  show ?thesis
    using u by (simp add: r [unfolded mgr_def] createBackup_files settings_ne_backup)
qed

theorem unload_nothing_to_remove_witness:
  "document_of (getSettings demo_rt (getInstance ''/home/u'')
      [''/home/u/.claude/settings.json'' \<mapsto> ''{\"theme\":\"dark\"}''])
     = Inr [(''theme'', JStr ''dark'')] \<and>
   map_of [(''theme'', JStr ''dark'')] ''env'' = None \<and>
   map_of [(''theme'', JStr ''dark'')] ''model'' = None \<and>
   unloadedSettings [(''theme'', JStr ''dark'')] = None \<and>
   fst (unloadProviderConfig demo_rt (getInstance ''/home/u'') ''2026-02-15T14:30:00.000Z''
      [''/home/u/.claude/settings.json'' \<mapsto> ''{\"theme\":\"dark\"}'']) = None \<and>
   snd (unloadProviderConfig demo_rt (getInstance ''/home/u'') ''2026-02-15T14:30:00.000Z''
      [''/home/u/.claude/settings.json'' \<mapsto> ''{\"theme\":\"dark\"}''])
      ''/home/u/.claude/settings.json'' = Some ''{\"theme\":\"dark\"}'' \<and>
   ''/home/u/.claude.json'' \<noteq> backupPathOf (getInstance ''/home/u'') ''2026-02-15T14:30:00.000Z'' \<and>
   snd (unloadProviderConfig demo_rt (getInstance ''/home/u'') ''2026-02-15T14:30:00.000Z''
      [''/home/u/.claude/settings.json'' \<mapsto> ''{\"theme\":\"dark\"}''])
      ''/home/u/.claude.json'' = None"
  using unload_nothing_to_remove [where rt = demo_rt and homedir = "''/home/u''"
      and isoTime = "''2026-02-15T14:30:00.000Z''" and D = "[(''theme'', JStr ''dark'')]"
      and files = "[''/home/u/.claude/settings.json'' \<mapsto> ''{\"theme\":\"dark\"}'']"]
  by (simp add: getInstance_def getSettings_def demo_rt_def backupPathOf_def)

section \<open>What the new document holds\<close>

lemma model_setting:
  "map_of (loadedSettings p region m k D) ''model''
     = Some (JStr (mapModelToSetting m (id_provider p)))"
  by (simp add: loadedSettings_def Let_def update_conv')

lemma env_setting:
  "map_of (loadedSettings p region m k D) ''env'' = Some (JObj (newEnv p region m k D))"
  by (simp add: loadedSettings_def Let_def update_conv')

lemma existingEnv_loaded:
  "existingEnv (loadedSettings p region m k D) = JObj (newEnv p region m k D)"
  by (simp add: existingEnv_def env_setting)

lemma base_managed_None:
  "K \<in> set MANAGED_ENV_KEYS \<Longrightarrow> map_of (spread (cleanEnv entries) []) K = None"
  using managed_not_in_cleanEnv [of K entries] keys_spread [of "cleanEnv entries" "[]"]
  by (simp add: map_of_eq_None_iff)

lemma claude_model_env:
  "map_of (newEnv claudeProvider region m k D) ''ANTHROPIC_MODEL'' = Some (JStr m)"
  by (simp add: newEnv_def Let_def claudeProvider_def js_set_def update_conv')

section \<open>The registry\<close>

lemma regions_registry:
  "regions claudeProvider = [
       \<lparr>id_region = ''global'', name_region = ''Global'',
        baseUrl = ''https://api.anthropic.com'',
        apiKeyUrl = ''https://console.anthropic.com/settings/keys''\<rparr>]"
  "regions zhipuProvider = [
       \<lparr>id_region = ''global'', name_region = ''Global'',
        baseUrl = ''https://api.z.ai/api/anthropic'',
        apiKeyUrl = ''https://z.ai/manage-apikey/apikey-list''\<rparr>,
       \<lparr>id_region = ''china'', name_region = ''China'',
        baseUrl = ''https://open.bigmodel.cn/api/anthropic'',
        apiKeyUrl = ''https://bigmodel.cn/usercenter/proj-mgmt/apikeys''\<rparr>]"
  "regions minimaxProvider = [
       \<lparr>id_region = ''global'', name_region = ''Global'',
        baseUrl = ''https://api.minimax.io/anthropic'',
        apiKeyUrl = ''https://platform.minimax.io/user-center/basic-information/interface-key''\<rparr>,
       \<lparr>id_region = ''china'', name_region = ''China'',
        baseUrl = ''https://api.minimaxi.com/anthropic'',
        apiKeyUrl = ''https://platform.minimaxi.com/user-center/basic-information/interface-key''\<rparr>]"
  "regions kimiProvider = [
       \<lparr>id_region = ''global'', name_region = ''Global'',
        baseUrl = ''https://api.moonshot.ai/anthropic'',
        apiKeyUrl = ''https://platform.moonshot.ai/console/api-keys''\<rparr>]"
  by (simp_all add: claudeProvider_def zhipuProvider_def minimaxProvider_def kimiProvider_def)

lemma registry_cases:
  "p \<in> set providers \<Longrightarrow>
   p = claudeProvider \<or> p = zhipuProvider \<or> p = minimaxProvider \<or> p = kimiProvider"
  by (simp add: providers_def)

lemma find_region_claude:
  "region \<in> set (regions claudeProvider) \<Longrightarrow>
   find (\<lambda>r. id_region r = id_region region) (regions claudeProvider) = Some region"
  by (simp add: claudeProvider_def)

lemma find_region_zhipu:
  "region \<in> set (regions zhipuProvider) \<Longrightarrow>
   find (\<lambda>r. id_region r = id_region region) (regions zhipuProvider) = Some region"
  by (simp add: zhipuProvider_def) (elim disjE; simp)

lemma find_region_minimax:
  "region \<in> set (regions minimaxProvider) \<Longrightarrow>
   find (\<lambda>r. id_region r = id_region region) (regions minimaxProvider) = Some region"
  by (simp add: minimaxProvider_def) (elim disjE; simp)

lemma find_region_kimi:
  "region \<in> set (regions kimiProvider) \<Longrightarrow>
   find (\<lambda>r. id_region r = id_region region) (regions kimiProvider) = Some region"
  by (simp add: kimiProvider_def)

lemma find_region_registry:
  "p \<in> set providers \<Longrightarrow> region \<in> set (regions p) \<Longrightarrow>
   find (\<lambda>r. id_region r = id_region region) (regions p) = Some region"
  using find_region_claude find_region_zhipu find_region_minimax find_region_kimi
  by (blast dest: registry_cases)

section \<open>Managed keys are replaced\<close>

lemma base_managed:
  "map_of (spread (cleanEnv entries) []) ''ANTHROPIC_AUTH_TOKEN'' = None"
  "map_of (spread (cleanEnv entries) []) ''ANTHROPIC_BASE_URL'' = None"
  "map_of (spread (cleanEnv entries) []) ''API_TIMEOUT_MS'' = None"
  "map_of (spread (cleanEnv entries) []) ''CLAUDE_CODE_DISABLE_NONESSENTIAL_TRAFFIC'' = None"
  "map_of (spread (cleanEnv entries) []) ''ANTHROPIC_MODEL'' = None"
  "map_of (spread (cleanEnv entries) []) ''ANTHROPIC_SMALL_FAST_MODEL'' = None"
  "map_of (spread (cleanEnv entries) []) ''ANTHROPIC_DEFAULT_SONNET_MODEL'' = None"
  "map_of (spread (cleanEnv entries) []) ''ANTHROPIC_DEFAULT_OPUS_MODEL'' = None"
  "map_of (spread (cleanEnv entries) []) ''ANTHROPIC_DEFAULT_HAIKU_MODEL'' = None"
  "map_of (spread (cleanEnv entries) []) ''CLAUDE_CODE_SUBAGENT_MODEL'' = None"
  by (simp_all add: base_managed_None MANAGED_ENV_KEYS_def)

lemma managed_values:
  assumes "p \<in> set providers"
  shows "map_of (newEnv p region m k D) ''ANTHROPIC_AUTH_TOKEN'' = Some (JStr k) \<and>
    map_of (newEnv p region m k D) ''ANTHROPIC_BASE_URL'' = Some (JStr (baseUrl region)) \<and>
    map_of (newEnv p region m k D) ''API_TIMEOUT_MS'' = Some (JStr ''3000000'') \<and>
    map_of (newEnv p region m k D) ''CLAUDE_CODE_DISABLE_NONESSENTIAL_TRAFFIC'' = Some (JNum 1) \<and>
    (\<forall>K \<in> set MANAGED_ENV_KEYS - {''ANTHROPIC_AUTH_TOKEN'', ''ANTHROPIC_BASE_URL'',
          ''API_TIMEOUT_MS'', ''CLAUDE_CODE_DISABLE_NONESSENTIAL_TRAFFIC''}.
       map_of (newEnv p region m k D) K = map_option JStr (map_of (getEnvOverrides p m) K))"
proof -
  consider "p = claudeProvider" | "p = zhipuProvider" | "p = minimaxProvider" | "p = kimiProvider"
    using registry_cases [OF assms] by blast
  then show ?thesis
  proof cases
    case 1
    show ?thesis
      by (simp add: 1 newEnv_def Let_def claudeProvider_def js_set_def update_conv' base_managed
            MANAGED_ENV_KEYS_def)
  next
    case 2
    show ?thesis
      by (simp add: 2 newEnv_def Let_def zhipuProvider_def js_set_def update_conv' base_managed
            MANAGED_ENV_KEYS_def)
  next
    case 3
    show ?thesis
      by (simp add: 3 newEnv_def Let_def minimaxProvider_def js_set_def update_conv' base_managed
            MANAGED_ENV_KEYS_def)
  next
    case 4
    show ?thesis
      by (simp add: 4 newEnv_def Let_def kimiProvider_def js_set_def update_conv' base_managed
            MANAGED_ENV_KEYS_def)
  qed
qed

text \<open>
  Claim C2. For every document, every provider of the registry, every region of it,
  every model and credential, the \<open>env\<close> of the document that apply produces holds each
  managed key with the supplied value only: the credential, the base URL of the region,
  the fixed timeout, the fixed flag, and for the remaining managed keys what the
  provider's \<open>getEnvOverrides\<close> gives for the model, or nothing. No value of a managed
  key comes from the old \<open>env\<close>.
\<close>

theorem managed_keys_replaced:
  assumes "p \<in> set providers" and "region \<in> set (regions p)"
  shows "apply_doc p (id_region region) m k D = Inr (loadedSettings p region m k D) \<and>
    map_of (loadedSettings p region m k D) ''env'' = Some (JObj (newEnv p region m k D)) \<and>
    map_of (newEnv p region m k D) ''ANTHROPIC_AUTH_TOKEN'' = Some (JStr k) \<and>
    map_of (newEnv p region m k D) ''ANTHROPIC_BASE_URL'' = Some (JStr (baseUrl region)) \<and>
    map_of (newEnv p region m k D) ''API_TIMEOUT_MS'' = Some (JStr ''3000000'') \<and>
    map_of (newEnv p region m k D) ''CLAUDE_CODE_DISABLE_NONESSENTIAL_TRAFFIC'' = Some (JNum 1) \<and>
    (\<forall>K \<in> set MANAGED_ENV_KEYS - {''ANTHROPIC_AUTH_TOKEN'', ''ANTHROPIC_BASE_URL'',
          ''API_TIMEOUT_MS'', ''CLAUDE_CODE_DISABLE_NONESSENTIAL_TRAFFIC''}.
       map_of (newEnv p region m k D) K = map_option JStr (map_of (getEnvOverrides p m) K))"
proof -
  have "apply_doc p (id_region region) m k D = Inr (loadedSettings p region m k D)"
    using find_region_registry [OF assms] by (simp add: apply_doc_def)
  moreover note env_setting [of p region m k D] managed_values [OF assms(1), of region m k D]
  ultimately show ?thesis by blast
qed

theorem managed_keys_replaced_witness:
  "zhipuProvider \<in> set providers \<and>
   \<lparr>id_region = ''china'', name_region = ''China'',
     baseUrl = ''https://open.bigmodel.cn/api/anthropic'',
     apiKeyUrl = ''https://bigmodel.cn/usercenter/proj-mgmt/apikeys''\<rparr>
     \<in> set (regions zhipuProvider) \<and>
   ''ANTHROPIC_MODEL'' \<in> set MANAGED_ENV_KEYS - {''ANTHROPIC_AUTH_TOKEN'', ''ANTHROPIC_BASE_URL'',
          ''API_TIMEOUT_MS'', ''CLAUDE_CODE_DISABLE_NONESSENTIAL_TRAFFIC''} \<and>
   apply_doc zhipuProvider ''china'' ''glm-5'' ''sk-new''
     [(''env'', JObj [(''ANTHROPIC_AUTH_TOKEN'', JStr ''sk-old''),
                     (''ANTHROPIC_MODEL'', JStr ''kimi-k2.5''),
                     (''EDITOR'', JStr ''vim'')])]
   = Inr [(''env'', JObj [(''EDITOR'', JStr ''vim''),
                          (''ANTHROPIC_AUTH_TOKEN'', JStr ''sk-new''),
                          (''ANTHROPIC_BASE_URL'', JStr ''https://open.bigmodel.cn/api/anthropic''),
                          (''API_TIMEOUT_MS'', JStr ''3000000''),
                          (''CLAUDE_CODE_DISABLE_NONESSENTIAL_TRAFFIC'', JNum 1)]),
          (''model'', JStr ''glm-5'')] \<and>
   map_of (newEnv zhipuProvider
      \<lparr>id_region = ''china'', name_region = ''China'',
        baseUrl = ''https://open.bigmodel.cn/api/anthropic'',
        apiKeyUrl = ''https://bigmodel.cn/usercenter/proj-mgmt/apikeys''\<rparr> ''glm-5'' ''sk-new''
      [(''env'', JObj [(''ANTHROPIC_AUTH_TOKEN'', JStr ''sk-old''),
                     (''ANTHROPIC_MODEL'', JStr ''kimi-k2.5''),
                     (''EDITOR'', JStr ''vim'')])]) ''ANTHROPIC_MODEL'' = None"
  using managed_keys_replaced [where p = zhipuProvider and m = "''glm-5''" and k = "''sk-new''"
      and region = "\<lparr>id_region = ''china'', name_region = ''China'',
        baseUrl = ''https://open.bigmodel.cn/api/anthropic'',
        apiKeyUrl = ''https://bigmodel.cn/usercenter/proj-mgmt/apikeys''\<rparr>"
      and D = "[(''env'', JObj [(''ANTHROPIC_AUTH_TOKEN'', JStr ''sk-old''),
                     (''ANTHROPIC_MODEL'', JStr ''kimi-k2.5''),
                     (''EDITOR'', JStr ''vim'')])]"]
  by (simp add: providers_def regions_registry MANAGED_ENV_KEYS_def)
     (simp add: zhipuProvider_def loadedSettings_def newEnv_def cleanEnv_def existingEnv_def
        spread_def js_set_def mapModelToSetting_def MANAGED_ENV_KEYS_def)

section \<open>The model setting\<close>

text \<open>
  Claim C6, as amended. For the provider \<open>claude\<close> the \<open>model\<close> setting is \<open>opus\<close> when the
  model id contains \<open>opus\<close>, \<open>sonnet\<close> when it contains \<open>sonnet\<close> and not \<open>opus\<close>, \<open>haiku\<close>
  when it contains \<open>haiku\<close> and neither of the others, while \<open>env.ANTHROPIC_MODEL\<close> is
  the full model id; for a provider with any other id the \<open>model\<close> setting is the model
  id itself.
\<close>

theorem model_setting_by_provider:
  "(includes_str m ''opus'' \<longrightarrow>
      map_of (loadedSettings claudeProvider region m k D) ''model'' = Some (JStr ''opus'')) \<and>
   (\<not> includes_str m ''opus'' \<and> includes_str m ''sonnet'' \<longrightarrow>
      map_of (loadedSettings claudeProvider region m k D) ''model'' = Some (JStr ''sonnet'')) \<and>
   (\<not> includes_str m ''opus'' \<and> \<not> includes_str m ''sonnet'' \<and> includes_str m ''haiku'' \<longrightarrow>
      map_of (loadedSettings claudeProvider region m k D) ''model'' = Some (JStr ''haiku'')) \<and>
   get_prop (existingEnv (loadedSettings claudeProvider region m k D)) ''ANTHROPIC_MODEL''
      = Some (JStr m) \<and>
   (id_provider p \<noteq> ''claude'' \<longrightarrow>
      map_of (loadedSettings p region m k D) ''model'' = Some (JStr m))"
  by (simp add: model_setting existingEnv_loaded claude_model_env mapModelToSetting_def)
     (simp add: claudeProvider_def)

theorem model_setting_by_provider_witness:
  "includes_str ''claude-opus-4-5-20251120'' ''opus'' \<and>
   map_of (loadedSettings claudeProvider
      \<lparr>id_region = ''global'', name_region = ''Global'', baseUrl = ''https://api.anthropic.com'',
        apiKeyUrl = ''https://console.anthropic.com/settings/keys''\<rparr>
      ''claude-opus-4-5-20251120'' ''sk-test'' []) ''model'' = Some (JStr ''opus'') \<and>
   get_prop (existingEnv (loadedSettings claudeProvider
      \<lparr>id_region = ''global'', name_region = ''Global'', baseUrl = ''https://api.anthropic.com'',
        apiKeyUrl = ''https://console.anthropic.com/settings/keys''\<rparr>
      ''claude-opus-4-5-20251120'' ''sk-test'' [])) ''ANTHROPIC_MODEL''
     = Some (JStr ''claude-opus-4-5-20251120'') \<and>
   \<not> includes_str ''claude-sonnet-4-20250514'' ''opus'' \<and>
   includes_str ''claude-sonnet-4-20250514'' ''sonnet'' \<and>
   map_of (loadedSettings claudeProvider
      \<lparr>id_region = ''global'', name_region = ''Global'', baseUrl = ''https://api.anthropic.com'',
        apiKeyUrl = ''https://console.anthropic.com/settings/keys''\<rparr>
      ''claude-sonnet-4-20250514'' ''sk-test'' []) ''model'' = Some (JStr ''sonnet'') \<and>
   \<not> includes_str ''claude-3-haiku-20240307'' ''opus'' \<and>
   \<not> includes_str ''claude-3-haiku-20240307'' ''sonnet'' \<and>
   includes_str ''claude-3-haiku-20240307'' ''haiku'' \<and>
   map_of (loadedSettings claudeProvider
      \<lparr>id_region = ''global'', name_region = ''Global'', baseUrl = ''https://api.anthropic.com'',
        apiKeyUrl = ''https://console.anthropic.com/settings/keys''\<rparr>
      ''claude-3-haiku-20240307'' ''sk-test'' []) ''model'' = Some (JStr ''haiku'') \<and>
   id_provider kimiProvider \<noteq> ''claude'' \<and>
   map_of (loadedSettings kimiProvider
      \<lparr>id_region = ''global'', name_region = ''Global'',
        baseUrl = ''https://api.moonshot.ai/anthropic'',
        apiKeyUrl = ''https://platform.moonshot.ai/console/api-keys''\<rparr>
      ''kimi-k2-opus'' ''sk-test'' []) ''model'' = Some (JStr ''kimi-k2-opus'')"
proof -
  have i: "includes_str ''claude-opus-4-5-20251120'' ''opus''"
    "\<not> includes_str ''claude-sonnet-4-20250514'' ''opus''"
    "includes_str ''claude-sonnet-4-20250514'' ''sonnet''"
    "\<not> includes_str ''claude-3-haiku-20240307'' ''opus''"
    "\<not> includes_str ''claude-3-haiku-20240307'' ''sonnet''"
    "includes_str ''claude-3-haiku-20240307'' ''haiku''"
    by code_simp+
  have k: "id_provider kimiProvider \<noteq> ''claude''"
    by (simp add: kimiProvider_def)
  show ?thesis
    using i k
      model_setting_by_provider [where m = "''claude-opus-4-5-20251120''" and k = "''sk-test''" and D = "[]"
        and p = kimiProvider
        and region = "\<lparr>id_region = ''global'', name_region = ''Global'',
          baseUrl = ''https://api.anthropic.com'',
          apiKeyUrl = ''https://console.anthropic.com/settings/keys''\<rparr>"]
      model_setting_by_provider [where m = "''claude-sonnet-4-20250514''" and k = "''sk-test''" and D = "[]"
        and p = kimiProvider
        and region = "\<lparr>id_region = ''global'', name_region = ''Global'',
          baseUrl = ''https://api.anthropic.com'',
          apiKeyUrl = ''https://console.anthropic.com/settings/keys''\<rparr>"]
      model_setting_by_provider [where m = "''claude-3-haiku-20240307''" and k = "''sk-test''" and D = "[]"
        and p = kimiProvider
        and region = "\<lparr>id_region = ''global'', name_region = ''Global'',
          baseUrl = ''https://api.anthropic.com'',
          apiKeyUrl = ''https://console.anthropic.com/settings/keys''\<rparr>"]
      model_setting_by_provider [where m = "''kimi-k2-opus''" and k = "''sk-test''" and D = "[]"
        and p = kimiProvider
        and region = "\<lparr>id_region = ''global'', name_region = ''Global'',
          baseUrl = ''https://api.moonshot.ai/anthropic'',
          apiKeyUrl = ''https://platform.moonshot.ai/console/api-keys''\<rparr>"]
    by blast
qed

text \<open>
  Claim C6 as stated fails on a model id that contains two of the names: this one
  contains \<open>sonnet\<close>, and its \<open>model\<close> setting is \<open>opus\<close>.
\<close>

theorem model_setting_overlap_counterexample:
  "includes_str ''claude-sonnet-opus'' ''sonnet'' \<and>
   apply_doc claudeProvider ''global'' ''claude-sonnet-opus'' ''sk-test'' [] =
     Inr [(''env'', JObj [
            (''ANTHROPIC_AUTH_TOKEN'', JStr ''sk-test''),
            (''ANTHROPIC_BASE_URL'', JStr ''https://api.anthropic.com''),
            (''API_TIMEOUT_MS'', JStr ''3000000''),
            (''CLAUDE_CODE_DISABLE_NONESSENTIAL_TRAFFIC'', JNum 1),
            (''ANTHROPIC_MODEL'', JStr ''claude-sonnet-opus'')]),
          (''model'', JStr ''opus'')]"
proof -
  have i: "includes_str ''claude-sonnet-opus'' ''sonnet''" "includes_str ''claude-sonnet-opus'' ''opus''"
    by code_simp+
  show ?thesis
    by (simp add: i apply_doc_def claudeProvider_def loadedSettings_def newEnv_def cleanEnv_def
        existingEnv_def spread_def js_set_def mapModelToSetting_def)
qed

section \<open>Detection after apply\<close>

lemma strip_registry:
  "strip_anthropic ''https://api.anthropic.com'' = ''https://api.anthropic.com''"
  "strip_anthropic ''https://api.z.ai/api/anthropic'' = ''https://api.z.ai/api''"
  "strip_anthropic ''https://open.bigmodel.cn/api/anthropic'' = ''https://open.bigmodel.cn/api''"
  "strip_anthropic ''https://api.minimax.io/anthropic'' = ''https://api.minimax.io''"
  "strip_anthropic ''https://api.minimaxi.com/anthropic'' = ''https://api.minimaxi.com''"
  "strip_anthropic ''https://api.moonshot.ai/anthropic'' = ''https://api.moonshot.ai''"
  by code_simp+

lemma detect_urls:
  "detectProviderByBaseUrl ''https://api.anthropic.com'' = Some claudeProvider"
  "detectProviderByBaseUrl ''https://api.z.ai/api/anthropic'' = Some zhipuProvider"
  "detectProviderByBaseUrl ''https://open.bigmodel.cn/api/anthropic'' = Some zhipuProvider"
  "detectProviderByBaseUrl ''https://api.minimax.io/anthropic'' = Some minimaxProvider"
  "detectProviderByBaseUrl ''https://api.minimaxi.com/anthropic'' = Some minimaxProvider"
  "detectProviderByBaseUrl ''https://api.moonshot.ai/anthropic'' = Some kimiProvider"
  by (simp_all add: detectProviderByBaseUrl_def providers_def regions_registry strip_registry
        startsWith_def)


lemma detect_region_claude:
  "region \<in> set (regions claudeProvider) \<Longrightarrow>
   baseUrl region \<noteq> [] \<and> detectProviderByBaseUrl (baseUrl region) = Some claudeProvider \<and>
   find (\<lambda>r. baseUrl r = baseUrl region) (regions claudeProvider) = Some region"
  by (simp add: regions_registry) (simp add: detect_urls)

lemma detect_region_zhipu:
  "region \<in> set (regions zhipuProvider) \<Longrightarrow>
   baseUrl region \<noteq> [] \<and> detectProviderByBaseUrl (baseUrl region) = Some zhipuProvider \<and>
   find (\<lambda>r. baseUrl r = baseUrl region) (regions zhipuProvider) = Some region"
  by (simp add: regions_registry) (elim disjE; simp add: detect_urls)

lemma detect_region_minimax:
  "region \<in> set (regions minimaxProvider) \<Longrightarrow>
   baseUrl region \<noteq> [] \<and> detectProviderByBaseUrl (baseUrl region) = Some minimaxProvider \<and>
   find (\<lambda>r. baseUrl r = baseUrl region) (regions minimaxProvider) = Some region"
  by (simp add: regions_registry) (elim disjE; simp add: detect_urls)

lemma detect_region_kimi:
  "region \<in> set (regions kimiProvider) \<Longrightarrow>
   baseUrl region \<noteq> [] \<and> detectProviderByBaseUrl (baseUrl region) = Some kimiProvider \<and>
   find (\<lambda>r. baseUrl r = baseUrl region) (regions kimiProvider) = Some region"
  by (simp add: regions_registry) (simp add: detect_urls)

lemma detect_region_registry:
  "p \<in> set providers \<Longrightarrow> region \<in> set (regions p) \<Longrightarrow>
   baseUrl region \<noteq> [] \<and> detectProviderByBaseUrl (baseUrl region) = Some p \<and>
   find (\<lambda>r. baseUrl r = baseUrl region) (regions p) = Some region"
  using detect_region_claude detect_region_zhipu detect_region_minimax detect_region_kimi
  by (blast dest: registry_cases)

lemma detect_after_load:
  assumes "p \<in> set providers" and "region \<in> set (regions p)" and "apiKey \<noteq> []"
  shows "detect_doc (loadedSettings p region m apiKey D) =
    Inr \<lparr>det_provider = Some p, det_regionId = Some (id_region region),
         det_apiKey = Some (JStr apiKey), det_baseUrl = Some (JStr (baseUrl region)),
         det_model = map_of (newEnv p region m apiKey D) ''ANTHROPIC_MODEL''\<rparr>"
proof -
  have a: "map_of (newEnv p region m apiKey D) ''ANTHROPIC_AUTH_TOKEN'' = Some (JStr apiKey)"
    and b: "map_of (newEnv p region m apiKey D) ''ANTHROPIC_BASE_URL'' = Some (JStr (baseUrl region))"
    using managed_values [OF assms(1), of region m apiKey D] by blast+
  have dr: "baseUrl region \<noteq> []" "detectProviderByBaseUrl (baseUrl region) = Some p"
    "find (\<lambda>r. baseUrl r = baseUrl region) (regions p) = Some region"
    using detect_region_registry [OF assms(1,2)] by blast+
  show ?thesis
    by (simp add: detect_doc_def existingEnv_loaded Let_def a b dr assms(3))
qed

text \<open>
  Claim C4, as amended. For every provider of the registry, every region of it, every
  model id and every credential that is not the empty string, detecting on the
  document that apply produces from the empty document gives that provider's id and
  that region's id.
\<close>

theorem detect_after_apply:
  assumes "p \<in> set providers" and "region \<in> set (regions p)" and "apiKey \<noteq> []"
  shows "\<exists>S d. apply_doc p (id_region region) m apiKey [] = Inr S \<and> detect_doc S = Inr d \<and>
     map_option id_provider (det_provider d) = Some (id_provider p) \<and>
     det_regionId d = Some (id_region region)"
  using detect_after_load [OF assms, of m "[]"] find_region_registry [OF assms(1,2)]
  by (simp add: apply_doc_def)

theorem detect_after_apply_witness:
  "minimaxProvider \<in> set providers \<and>
   \<lparr>id_region = ''china'', name_region = ''China'',
     baseUrl = ''https://api.minimaxi.com/anthropic'',
     apiKeyUrl = ''https://platform.minimaxi.com/user-center/basic-information/interface-key''\<rparr>
     \<in> set (regions minimaxProvider) \<and>
   ''sk-test'' \<noteq> [] \<and>
   (\<exists>S d. apply_doc minimaxProvider ''china'' ''MiniMax-M2.5'' ''sk-test'' [] = Inr S \<and>
      detect_doc S = Inr d \<and>
      map_option id_provider (det_provider d) = Some ''minimax'' \<and>
      det_regionId d = Some ''china'')"
  using detect_after_apply [where p = minimaxProvider and m = "''MiniMax-M2.5''" and apiKey = "''sk-test''"
      and region = "\<lparr>id_region = ''china'', name_region = ''China'',
        baseUrl = ''https://api.minimaxi.com/anthropic'',
        apiKeyUrl = ''https://platform.minimaxi.com/user-center/basic-information/interface-key''\<rparr>"]
  by (simp add: providers_def regions_registry) (simp add: minimaxProvider_def)

text \<open>
  Claim C4 as stated fails on the empty credential: the stored token is falsy and
  detection returns no provider and no region.
\<close>

theorem detect_empty_credential_counterexample:
  "kimiProvider \<in> set providers \<and>
   apply_doc kimiProvider ''global'' ''kimi-k2.5'' [] [] =
     Inr [(''env'', JObj [
            (''ANTHROPIC_AUTH_TOKEN'', JStr []),
            (''ANTHROPIC_BASE_URL'', JStr ''https://api.moonshot.ai/anthropic''),
            (''API_TIMEOUT_MS'', JStr ''3000000''),
            (''CLAUDE_CODE_DISABLE_NONESSENTIAL_TRAFFIC'', JNum 1),
            (''ANTHROPIC_MODEL'', JStr ''kimi-k2.5''),
            (''ANTHROPIC_DEFAULT_SONNET_MODEL'', JStr ''kimi-k2.5''),
            (''ANTHROPIC_DEFAULT_OPUS_MODEL'', JStr ''kimi-k2.5''),
            (''ANTHROPIC_DEFAULT_HAIKU_MODEL'', JStr ''kimi-k2.5''),
            (''CLAUDE_CODE_SUBAGENT_MODEL'', JStr ''kimi-k2.5'')]),
          (''model'', JStr ''kimi-k2.5'')] \<and>
   detect_doc [(''env'', JObj [
            (''ANTHROPIC_AUTH_TOKEN'', JStr []),
            (''ANTHROPIC_BASE_URL'', JStr ''https://api.moonshot.ai/anthropic''),
            (''API_TIMEOUT_MS'', JStr ''3000000''),
            (''CLAUDE_CODE_DISABLE_NONESSENTIAL_TRAFFIC'', JNum 1),
            (''ANTHROPIC_MODEL'', JStr ''kimi-k2.5''),
            (''ANTHROPIC_DEFAULT_SONNET_MODEL'', JStr ''kimi-k2.5''),
            (''ANTHROPIC_DEFAULT_OPUS_MODEL'', JStr ''kimi-k2.5''),
            (''ANTHROPIC_DEFAULT_HAIKU_MODEL'', JStr ''kimi-k2.5''),
            (''CLAUDE_CODE_SUBAGENT_MODEL'', JStr ''kimi-k2.5'')]),
          (''model'', JStr ''kimi-k2.5'')] =
     Inr \<lparr>det_provider = None, det_regionId = None, det_apiKey = None,
          det_baseUrl = None, det_model = None\<rparr>"
  by (simp add: providers_def)
     (simp add: apply_doc_def kimiProvider_def loadedSettings_def newEnv_def cleanEnv_def
        existingEnv_def spread_def js_set_def mapModelToSetting_def detect_doc_def)

section \<open>What apply keeps and what unload leaves\<close>

text \<open>
  For an old document whose objects have distinct keys: apply keeps every top-level key
  other than \<open>env\<close> and \<open>model\<close>, and every key of the old \<open>env\<close> that is neither managed
  nor \<open>__proto__\<close>; unload after apply leaves exactly those \<open>env\<close> keys and nothing else.
\<close>

lemma map_of_filter_keys:
  "map_of (filter (\<lambda>(k, v). P k) xs) k = (if P k then map_of xs k else None)"
  by (induction xs) auto

lemma apply_keeps_top_level:
  assumes "distinct (map fst D)" and "k \<noteq> ''env''" and "k \<noteq> ''model''"
  shows "map_of (loadedSettings p region m key D) k = map_of D k"
  using assms by (simp add: loadedSettings_def Let_def update_conv' spread_distinct)

lemma cleaned_spread:
  assumes "distinct (map fst entries)"
  shows "spread (cleanEnv entries) [] =
    filter (\<lambda>(k, v). k \<notin> set MANAGED_ENV_KEYS \<and> k \<noteq> ''__proto__'') entries"
proof -
  have "distinct (map fst (filter (\<lambda>(k, v). k \<notin> set MANAGED_ENV_KEYS \<and> k \<noteq> ''__proto__'') entries))"
    using assms by (rule distinct_map_filter)
  then show ?thesis by (simp add: cleanEnv_filter [OF assms] spread_distinct)
qed

lemma overrides_registry:
  "p \<in> set providers \<Longrightarrow> k \<notin> set MANAGED_ENV_KEYS \<Longrightarrow>
   fold (\<lambda>(key, v). js_set key (JStr v)) (getEnvOverrides p m) base = base' \<Longrightarrow>
   map_of base' k = map_of base k"
  by (drule registry_cases)
     (auto simp: claudeProvider_def zhipuProvider_def minimaxProvider_def kimiProvider_def
        js_set_def update_conv' MANAGED_ENV_KEYS_def)

lemma apply_keeps_env:
  assumes "p \<in> set providers"
    and "distinct (map fst (Object_entries (existingEnv D)))"
    and "k \<notin> set MANAGED_ENV_KEYS" and "k \<noteq> ''__proto__''"
  shows "map_of (newEnv p region m key D) k = map_of (Object_entries (existingEnv D)) k"
proof -
  define base where "base =
     AList.update ''CLAUDE_CODE_DISABLE_NONESSENTIAL_TRAFFIC'' (JNum 1)
       (AList.update ''API_TIMEOUT_MS'' (JStr ''3000000'')
         (AList.update ''ANTHROPIC_BASE_URL'' (JStr (baseUrl region))
           (AList.update ''ANTHROPIC_AUTH_TOKEN'' (JStr key)
             (spread (cleanEnv (Object_entries (existingEnv D))) []))))"
  have n: "newEnv p region m key D = fold (\<lambda>(key, v). js_set key (JStr v)) (getEnvOverrides p m) base"
    by (simp add: newEnv_def Let_def base_def)
  have ks: "k \<noteq> ''CLAUDE_CODE_DISABLE_NONESSENTIAL_TRAFFIC''" "k \<noteq> ''API_TIMEOUT_MS''"
    "k \<noteq> ''ANTHROPIC_BASE_URL''" "k \<noteq> ''ANTHROPIC_AUTH_TOKEN''"
    using assms(3) by (auto simp: MANAGED_ENV_KEYS_def)
  have "map_of base k = map_of (spread (cleanEnv (Object_entries (existingEnv D))) []) k"
    using ks by (simp add: base_def update_conv')
  also have "\<dots> = map_of (Object_entries (existingEnv D)) k"
    using assms(3,4) by (simp add: cleaned_spread [OF assms(2)] map_of_filter_keys)
  finally show ?thesis
    using overrides_registry [OF assms(1,3) n [symmetric]] by simp
qed


lemma update_append_fresh:
  "k \<notin> fst ` set xs \<Longrightarrow> AList.update k v (xs @ ys) = xs @ AList.update k v ys"
  by (induction xs) auto

lemma kept_keys:
  "K \<in> fst ` set (filter (\<lambda>(k, v). k \<notin> set MANAGED_ENV_KEYS \<and> k \<noteq> ''__proto__'') entries)
   \<Longrightarrow> K \<notin> set MANAGED_ENV_KEYS \<and> K \<noteq> ''__proto__''"
  by auto

lemma newEnv_explicit:
  assumes "p \<in> set providers"
    and "distinct (map fst (Object_entries (existingEnv D)))"
  shows "newEnv p region m key D =
    filter (\<lambda>(k, v). k \<notin> set MANAGED_ENV_KEYS \<and> k \<noteq> ''__proto__'')
      (Object_entries (existingEnv D)) @
    [(''ANTHROPIC_AUTH_TOKEN'', JStr key),
     (''ANTHROPIC_BASE_URL'', JStr (baseUrl region)),
     (''API_TIMEOUT_MS'', JStr ''3000000''),
     (''CLAUDE_CODE_DISABLE_NONESSENTIAL_TRAFFIC'', JNum 1)] @
    map (\<lambda>(k, v). (k, JStr v)) (getEnvOverrides p m)"
proof -
  define F where "F = filter (\<lambda>(k, v). k \<notin> set MANAGED_ENV_KEYS \<and> k \<noteq> ''__proto__'')
      (Object_entries (existingEnv D))"
  have F: "spread (cleanEnv (Object_entries (existingEnv D))) [] = F"
    by (simp add: F_def cleaned_spread [OF assms(2)])
  have fresh: "K \<notin> fst ` set F" if "K \<in> set MANAGED_ENV_KEYS" for K
    using that kept_keys [of K "Object_entries (existingEnv D)"] by (auto simp: F_def)
  have fr: "''ANTHROPIC_AUTH_TOKEN'' \<notin> fst ` set F"
    "''ANTHROPIC_BASE_URL'' \<notin> fst ` set F"
    "''API_TIMEOUT_MS'' \<notin> fst ` set F"
    "''CLAUDE_CODE_DISABLE_NONESSENTIAL_TRAFFIC'' \<notin> fst ` set F"
    "''ANTHROPIC_MODEL'' \<notin> fst ` set F"
    "''ANTHROPIC_SMALL_FAST_MODEL'' \<notin> fst ` set F"
    "''ANTHROPIC_DEFAULT_SONNET_MODEL'' \<notin> fst ` set F"
    "''ANTHROPIC_DEFAULT_OPUS_MODEL'' \<notin> fst ` set F"
    "''ANTHROPIC_DEFAULT_HAIKU_MODEL'' \<notin> fst ` set F"
    "''CLAUDE_CODE_SUBAGENT_MODEL'' \<notin> fst ` set F"
    by (rule fresh, simp add: MANAGED_ENV_KEYS_def)+
  have base: "AList.update ''CLAUDE_CODE_DISABLE_NONESSENTIAL_TRAFFIC'' (JNum 1)
       (AList.update ''API_TIMEOUT_MS'' (JStr ''3000000'')
         (AList.update ''ANTHROPIC_BASE_URL'' (JStr (baseUrl region))
           (AList.update ''ANTHROPIC_AUTH_TOKEN'' (JStr key) F)))
     = F @ [(''ANTHROPIC_AUTH_TOKEN'', JStr key),
            (''ANTHROPIC_BASE_URL'', JStr (baseUrl region)),
            (''API_TIMEOUT_MS'', JStr ''3000000''),
            (''CLAUDE_CODE_DISABLE_NONESSENTIAL_TRAFFIC'', JNum 1)]"
    using update_append_fresh [OF fr(1), of "JStr key" "[]"]
    by (simp add: update_append_fresh fr)
  consider "p = claudeProvider" | "p = zhipuProvider" | "p = minimaxProvider" | "p = kimiProvider"
    using registry_cases [OF assms(1)] by blast
  then have "newEnv p region m key D =
    F @ [(''ANTHROPIC_AUTH_TOKEN'', JStr key),
         (''ANTHROPIC_BASE_URL'', JStr (baseUrl region)),
         (''API_TIMEOUT_MS'', JStr ''3000000''),
         (''CLAUDE_CODE_DISABLE_NONESSENTIAL_TRAFFIC'', JNum 1)] @
    map (\<lambda>(k, v). (k, JStr v)) (getEnvOverrides p m)"
  proof cases
    case 1
    show ?thesis
      by (simp add: 1 newEnv_def Let_def F base claudeProvider_def js_set_def
            update_append_fresh fr)
  next
    case 2
    show ?thesis
      by (simp add: 2 newEnv_def Let_def F base zhipuProvider_def)
  next
    case 3
    show ?thesis
      by (simp add: 3 newEnv_def Let_def F base minimaxProvider_def js_set_def
            update_append_fresh fr)
  next
    case 4
    show ?thesis
      by (simp add: 4 newEnv_def Let_def F base kimiProvider_def js_set_def
            update_append_fresh fr)
  qed
  then show ?thesis by (simp add: F_def)
qed


lemma unloadedSettings_env:
  assumes "map_of S ''env'' = Some (JObj E)" and "distinct (map fst E)"
  shows "unloadedSettings S =
    Some (if filter (\<lambda>(k, v). k \<notin> set MANAGED_ENV_KEYS \<and> k \<noteq> ''__proto__'') E = [] then []
          else [(''env'', JObj (filter (\<lambda>(k, v). k \<notin> set MANAGED_ENV_KEYS \<and> k \<noteq> ''__proto__'') E))])"
  using assms(1)
  by (simp add: unloadedSettings_def Let_def cleanEnv_filter [OF assms(2)] js_set_def)

lemma tail_registry:
  assumes "p \<in> set providers"
  shows "distinct (map fst
      ([(''ANTHROPIC_AUTH_TOKEN'', JStr key),
        (''ANTHROPIC_BASE_URL'', JStr (baseUrl region)),
        (''API_TIMEOUT_MS'', JStr ''3000000''),
        (''CLAUDE_CODE_DISABLE_NONESSENTIAL_TRAFFIC'', JNum 1)] @
       map (\<lambda>(k, v). (k, JStr v)) (getEnvOverrides p m))) \<and>
    fst ` set ([(''ANTHROPIC_AUTH_TOKEN'', JStr key),
        (''ANTHROPIC_BASE_URL'', JStr (baseUrl region)),
        (''API_TIMEOUT_MS'', JStr ''3000000''),
        (''CLAUDE_CODE_DISABLE_NONESSENTIAL_TRAFFIC'', JNum 1)] @
       map (\<lambda>(k, v). (k, JStr v)) (getEnvOverrides p m)) \<subseteq> set MANAGED_ENV_KEYS"
proof -
  consider "p = claudeProvider" | "p = zhipuProvider" | "p = minimaxProvider" | "p = kimiProvider"
    using registry_cases [OF assms(1)] by blast
  then show ?thesis
  proof cases
    case 1
    show ?thesis by (simp add: 1 claudeProvider_def MANAGED_ENV_KEYS_def)
  next
    case 2
    show ?thesis by (simp add: 2 zhipuProvider_def MANAGED_ENV_KEYS_def)
  next
    case 3
    show ?thesis by (simp add: 3 minimaxProvider_def MANAGED_ENV_KEYS_def)
  next
    case 4
    show ?thesis by (simp add: 4 kimiProvider_def MANAGED_ENV_KEYS_def)
  qed
qed

lemma filter_managed_tail:
  "fst ` set T \<subseteq> set MANAGED_ENV_KEYS \<Longrightarrow>
   filter (\<lambda>(k, v). k \<notin> set MANAGED_ENV_KEYS \<and> k \<noteq> ''__proto__'') T = []"
  by (induction T) auto

lemma unload_of_loaded:
  assumes "p \<in> set providers"
    and "distinct (map fst (Object_entries (existingEnv D)))"
  shows "unload_doc (loadedSettings p region m key D) =
    (if filter (\<lambda>(k, v). k \<notin> set MANAGED_ENV_KEYS \<and> k \<noteq> ''__proto__'')
          (Object_entries (existingEnv D)) = [] then []
     else [(''env'', JObj (filter (\<lambda>(k, v). k \<notin> set MANAGED_ENV_KEYS \<and> k \<noteq> ''__proto__'')
          (Object_entries (existingEnv D))))])"
proof -
  define F where "F = filter (\<lambda>(k, v). k \<notin> set MANAGED_ENV_KEYS \<and> k \<noteq> ''__proto__'')
      (Object_entries (existingEnv D))"
  define T where "T = [(''ANTHROPIC_AUTH_TOKEN'', JStr key),
        (''ANTHROPIC_BASE_URL'', JStr (baseUrl region)),
        (''API_TIMEOUT_MS'', JStr ''3000000''),
        (''CLAUDE_CODE_DISABLE_NONESSENTIAL_TRAFFIC'', JNum 1)] @
       map (\<lambda>(k, v). (k, JStr v)) (getEnvOverrides p m)"
  have E: "newEnv p region m key D = F @ T"
    using newEnv_explicit [OF assms, of region m key] by (simp add: F_def T_def)
  have dT: "distinct (map fst T)" and mT: "fst ` set T \<subseteq> set MANAGED_ENV_KEYS"
    using tail_registry [OF assms(1), of key region m] by (simp_all add: T_def)
  have dF: "distinct (map fst F)"
    unfolding F_def using assms(2) by (rule distinct_map_filter)
  have disj: "fst ` set F \<inter> fst ` set T = {}"
    using mT kept_keys [of _ "Object_entries (existingEnv D)"] unfolding F_def by blast
  have dE: "distinct (map fst (F @ T))"
    using dF dT disj by simp
  have fF: "filter (\<lambda>(k, v). k \<notin> set MANAGED_ENV_KEYS \<and> k \<noteq> ''__proto__'') F = F"
    by (simp add: F_def)
  have fE: "filter (\<lambda>(k, v). k \<notin> set MANAGED_ENV_KEYS \<and> k \<noteq> ''__proto__'') (F @ T) = F"
    by (simp add: fF filter_managed_tail [OF mT])
  have "unloadedSettings (loadedSettings p region m key D)
      = Some (if F = [] then [] else [(''env'', JObj F)])"
    using unloadedSettings_env [of "loadedSettings p region m key D" "F @ T"] dE
    by (simp only: env_setting E fE)
  then show ?thesis by (simp add: unload_doc_def F_def)
qed

section \<open>Keys that do not survive\<close>

text \<open>
  Claim C1. The claim asks that apply keeps every key of the old \<open>env\<close> outside the
  managed list, and every top-level key other than \<open>env\<close> and \<open>model\<close>. The second half
  is \<open>apply_keeps_top_level\<close>; the first holds for every key but one
  (\<open>apply_keeps_env\<close>). Evaluated on an \<open>env\<close> with the unmanaged keys \<open>__proto__\<close> and
  \<open>EDITOR\<close>: the copying loop assigns \<open>cleanedEnv[key] = value\<close>, which for \<open>__proto__\<close>
  creates no property, so \<open>EDITOR\<close> is kept and \<open>__proto__\<close> is lost.
\<close>

theorem proto_key_dropped_by_apply:
  "''__proto__'' \<notin> set MANAGED_ENV_KEYS \<and>
   apply_doc kimiProvider ''global'' ''kimi-k2.5'' ''sk-test''
     [(''env'', JObj [(''__proto__'', JStr ''x''), (''EDITOR'', JStr ''vim'')])] =
     Inr [(''env'', JObj [
            (''EDITOR'', JStr ''vim''),
            (''ANTHROPIC_AUTH_TOKEN'', JStr ''sk-test''),
            (''ANTHROPIC_BASE_URL'', JStr ''https://api.moonshot.ai/anthropic''),
            (''API_TIMEOUT_MS'', JStr ''3000000''),
            (''CLAUDE_CODE_DISABLE_NONESSENTIAL_TRAFFIC'', JNum 1),
            (''ANTHROPIC_MODEL'', JStr ''kimi-k2.5''),
            (''ANTHROPIC_DEFAULT_SONNET_MODEL'', JStr ''kimi-k2.5''),
            (''ANTHROPIC_DEFAULT_OPUS_MODEL'', JStr ''kimi-k2.5''),
            (''ANTHROPIC_DEFAULT_HAIKU_MODEL'', JStr ''kimi-k2.5''),
            (''CLAUDE_CODE_SUBAGENT_MODEL'', JStr ''kimi-k2.5'')]),
          (''model'', JStr ''kimi-k2.5'')]"
  by (simp add: apply_doc_def kimiProvider_def loadedSettings_def newEnv_def cleanEnv_def
        existingEnv_def spread_def js_set_def mapModelToSetting_def MANAGED_ENV_KEYS_def)

text \<open>
  Claim C3. The claim asks that every unmanaged key of the old \<open>env\<close> and every
  top-level key of the document other than \<open>env\<close> and \<open>model\<close> is still there after
  apply and then unload. What is left is the kept part of the old \<open>env\<close> and nothing
  else (\<open>unload_of_loaded\<close>). Evaluated on a document with the key \<open>theme\<close>: apply
  keeps it, and unload, which builds its result from the empty object, returns the
  empty document.
\<close>

theorem unload_after_apply_drops_top_level:
  "apply_doc kimiProvider ''global'' ''kimi-k2.5'' ''sk-test'' [(''theme'', JStr ''dark'')] =
     Inr [(''theme'', JStr ''dark''),
          (''env'', JObj [
            (''ANTHROPIC_AUTH_TOKEN'', JStr ''sk-test''),
            (''ANTHROPIC_BASE_URL'', JStr ''https://api.moonshot.ai/anthropic''),
            (''API_TIMEOUT_MS'', JStr ''3000000''),
            (''CLAUDE_CODE_DISABLE_NONESSENTIAL_TRAFFIC'', JNum 1),
            (''ANTHROPIC_MODEL'', JStr ''kimi-k2.5''),
            (''ANTHROPIC_DEFAULT_SONNET_MODEL'', JStr ''kimi-k2.5''),
            (''ANTHROPIC_DEFAULT_OPUS_MODEL'', JStr ''kimi-k2.5''),
            (''ANTHROPIC_DEFAULT_HAIKU_MODEL'', JStr ''kimi-k2.5''),
            (''CLAUDE_CODE_SUBAGENT_MODEL'', JStr ''kimi-k2.5'')]),
          (''model'', JStr ''kimi-k2.5'')] \<and>
   unload_doc [(''theme'', JStr ''dark''),
          (''env'', JObj [
            (''ANTHROPIC_AUTH_TOKEN'', JStr ''sk-test''),
            (''ANTHROPIC_BASE_URL'', JStr ''https://api.moonshot.ai/anthropic''),
            (''API_TIMEOUT_MS'', JStr ''3000000''),
            (''CLAUDE_CODE_DISABLE_NONESSENTIAL_TRAFFIC'', JNum 1),
            (''ANTHROPIC_MODEL'', JStr ''kimi-k2.5''),
            (''ANTHROPIC_DEFAULT_SONNET_MODEL'', JStr ''kimi-k2.5''),
            (''ANTHROPIC_DEFAULT_OPUS_MODEL'', JStr ''kimi-k2.5''),
            (''ANTHROPIC_DEFAULT_HAIKU_MODEL'', JStr ''kimi-k2.5''),
            (''CLAUDE_CODE_SUBAGENT_MODEL'', JStr ''kimi-k2.5'')]),
          (''model'', JStr ''kimi-k2.5'')] = []"
  by (simp add: apply_doc_def kimiProvider_def loadedSettings_def newEnv_def cleanEnv_def
        existingEnv_def spread_def js_set_def mapModelToSetting_def MANAGED_ENV_KEYS_def
        unload_doc_def unloadedSettings_def)

end
